theory Spec2Isabelle
  imports Main "HOL-Library.AList" "HOL-Library.Sublist" "HOL-Library.Word"
begin

section \<open>JavaScript values and errors\<close>

text \<open>
  The loaders work on values decoded from JSON. A value is one of JavaScript's primitives,
  an array or a plain object. An object is the list of its own properties in their own
  order; the property a name denotes is the first binding of that name (\<open>map_of\<close>).
  \<open>Undefined\<close> never occurs in a decoded body; it is what reading a missing property
  gives. The number type is a parameter: the loaders never compute with numbers.
  A string is the list of its code units, one \<open>char\<close> each; the loaders split, compare
  and concatenate strings and never look inside a code unit.
\<close>

datatype 'n jsval =
    Undefined
  | Null
  | Bool bool
  | Num 'n
  | Str string
  | Arr "'n jsval list"
  | Obj "(string \<times> 'n jsval) list"

text \<open>
  A thrown value is an error object: its class (what \<open>instanceof\<close> and \<open>name\<close> tell),
  its message and its optional \<open>cause\<close>. \<open>new Error(msg)\<close> builds
  \<open>JsError Error msg None\<close>.
\<close>

datatype error_class = Error | TypeError | SyntaxError | OtherClass string

datatype js_error = JsError (err_class: error_class) (message: string) (cause: "js_error option")

type_synonym byte = "8 word"

fun typeof :: "'n jsval \<Rightarrow> string" where
  "typeof Undefined = ''undefined''"
| "typeof Null = ''object''"
| "typeof (Bool b) = ''boolean''"
| "typeof (Num n) = ''number''"
| "typeof (Str s) = ''string''"
| "typeof (Arr xs) = ''object''"
| "typeof (Obj ps) = ''object''"

text \<open>
  Reading a property \<open>v.k\<close>, for the names the loaders read (\<open>text\<close>, \<open>metadata\<close>,
  \<open>type\<close>), which no built-in prototype defines: \<open>null\<close> and \<open>undefined\<close> raise a
  TypeError, an object gives its own property or \<open>undefined\<close>, every other value gives
  \<open>undefined\<close>. The wording of the TypeError is the engine's (here V8's, for a property
  read; destructuring words it differently) and plays no role below.
\<close>

definition quoted :: "string \<Rightarrow> string" where
  "quoted s = CHR 0x27 # s @ [CHR 0x27]"

fun get_prop :: "'n jsval \<Rightarrow> string \<Rightarrow> js_error + 'n jsval" where
  "get_prop Undefined k =
     Inl (JsError TypeError
            (''Cannot read properties of undefined (reading '' @ quoted k @ '')'') None)"
| "get_prop Null k =
     Inl (JsError TypeError
            (''Cannot read properties of null (reading '' @ quoted k @ '')'') None)"
| "get_prop (Obj ps) k = Inr (case map_of ps k of None \<Rightarrow> Undefined | Some v \<Rightarrow> v)"
| "get_prop v k = Inr Undefined"

text \<open>Decimal rendering of a natural number (an HTTP status, an array index).\<close>

definition digit_char :: "nat \<Rightarrow> char" where
  "digit_char d = ''0123456789'' ! d"

function show_nat :: "nat \<Rightarrow> string" where
  "show_nat n = (if n < 10 then [digit_char n] else show_nat (n div 10) @ [digit_char (n mod 10)])"
  by pat_completeness auto
termination
  by (relation "measure id") auto

declare show_nat.simps [simp del]

text \<open>
  The string conversion of a template literal, \<open>`${v}`\<close>, on a decoded value. An object is
  converted through its \<open>toString\<close> property: an own property of that name holds a decoded
  value, which is not callable, and the inherited \<open>valueOf\<close> returns the object itself, so
  the conversion raises a TypeError; otherwise the inherited \<open>toString\<close> gives
  \<open>[object Object]\<close>. An own \<open>valueOf\<close> is not callable either and changes nothing.
  Arrays are never converted by the loader (the conversion is reached only for a value that
  is not an array); the clause is Array.prototype.toString, which joins with commas (\<open>join\<close>) and
  renders \<open>null\<close> and \<open>undefined\<close> as the empty string.
\<close>

fun join :: "string \<Rightarrow> string list \<Rightarrow> string" where
  "join sep [] = []"
| "join sep [s] = s"
| "join sep (s # t # ss) = s @ sep @ join sep (t # ss)"

fun sequence_sum :: "('e + 'a) list \<Rightarrow> 'e + 'a list" where
  "sequence_sum [] = Inr []"
| "sequence_sum (x # xs) =
     (case x of Inl e \<Rightarrow> Inl e
      | Inr a \<Rightarrow> (case sequence_sum xs of Inl e \<Rightarrow> Inl e | Inr r \<Rightarrow> Inr (a # r)))"

fun ToString :: "('n \<Rightarrow> string) \<Rightarrow> 'n jsval \<Rightarrow> js_error + string" where
  "ToString ns Undefined = Inr ''undefined''"
| "ToString ns Null = Inr ''null''"
| "ToString ns (Bool b) = Inr (if b then ''true'' else ''false'')"
| "ToString ns (Num n) = Inr (ns n)"
| "ToString ns (Str s) = Inr s"
| "ToString ns (Arr xs) =
     (case sequence_sum (map (\<lambda>x. case x of Undefined \<Rightarrow> Inr [] | Null \<Rightarrow> Inr []
                                   | _ \<Rightarrow> ToString ns x) xs) of
        Inl e \<Rightarrow> Inl e
      | Inr ss \<Rightarrow> Inr (join '','' ss))"
| "ToString ns (Obj ps) =
     (if ''toString'' \<in> set (map fst ps)
      then Inl (JsError TypeError ''Cannot convert object to primitive value'' None)
      else Inr ''[object Object]'')"

text \<open>
  Object spread \<open>{...v}\<close>: the own enumerable properties of \<open>v\<close>. \<open>undefined\<close>, \<open>null\<close>,
  booleans and numbers have none; a string and an array have their indices; an object has
  its properties.
\<close>

fun spread :: "'n jsval \<Rightarrow> (string \<times> 'n jsval) list" where
  "spread (Obj ps) = ps"
| "spread (Arr xs) = zip (map show_nat [0..<length xs]) xs"
| "spread (Str s) = zip (map show_nat [0..<length s]) (map (\<lambda>c. Str [c]) s)"
| "spread v = []"

section \<open>The partitioning client (UnstructuredWebLoader)\<close>

record UnstructuredLoaderOptions =
  opt_apiKey :: "string option"
  opt_apiUrl :: "string option"
  opt_strategy :: "string option"
  opt_encoding :: "string option"
  opt_ocrLanguages :: "string list option"
  opt_coordinates :: "bool option"
  opt_pdfInferTableStructure :: "bool option"
  opt_xmlKeepTags :: "bool option"

definition no_options :: UnstructuredLoaderOptions where
  "no_options = \<lparr>opt_apiKey = None, opt_apiUrl = None, opt_strategy = None,
     opt_encoding = None, opt_ocrLanguages = None, opt_coordinates = None,
     opt_pdfInferTableStructure = None, opt_xmlKeepTags = None\<rparr>"

record UnstructuredWebLoader =
  filePath :: string
  buffer :: "byte list"
  apiUrl :: string
  apiKey :: "string option"
  strategy :: string
  encoding :: "string option"
  ocrLanguages :: "string list"
  coordinates :: "bool option"
  pdfInferTableStructure :: "bool option"
  xmlKeepTags :: "bool option"

text \<open>The nullish coalescing operator \<open>a ?? b\<close>.\<close>

definition nullish :: "'a option \<Rightarrow> 'a \<Rightarrow> 'a" where
  "nullish a b = (case a of None \<Rightarrow> b | Some x \<Rightarrow> x)"

text \<open>The constructor: field initialisers first, then the options.\<close>

definition new_UnstructuredWebLoader ::
  "string \<Rightarrow> byte list \<Rightarrow> UnstructuredLoaderOptions \<Rightarrow> UnstructuredWebLoader" where
  "new_UnstructuredWebLoader fp buf options =
     \<lparr>filePath = fp,
      buffer = buf,
      apiUrl = nullish (opt_apiUrl options) ''https://api.unstructured.io/general/v0/general'',
      apiKey = opt_apiKey options,
      strategy = nullish (opt_strategy options) ''hi_res'',
      encoding = opt_encoding options,
      ocrLanguages = nullish (opt_ocrLanguages options) [],
      coordinates = opt_coordinates options,
      pdfInferTableStructure = opt_pdfInferTableStructure options,
      xmlKeepTags = opt_xmlKeepTags options\<rparr>"

text \<open>\<open>s.split("/")\<close>: the segments between the separators, never an empty list.\<close>

fun split_slash :: "string \<Rightarrow> string list" where
  "split_slash [] = [[]]"
| "split_slash (c # cs) =
     (if c = CHR ''/'' then [] # split_slash cs
      else (case split_slash cs of [] \<Rightarrow> [[c]] | s # ss \<Rightarrow> (c # s) # ss))"

text \<open>\<open>xs.pop()\<close>: the last element, \<open>undefined\<close> on an empty array.\<close>

definition pop :: "'a list \<Rightarrow> 'a option" where
  "pop xs = (if xs = [] then None else Some (last xs))"

text \<open>
  A multipart form is the list of its entries in the order of the \<open>append\<close> calls; a name
  may repeat. An entry is a string or a file part (content and file name).
  \<open>append(name, blob, filename)\<close> with \<open>filename\<close> undefined names the part \<open>blob\<close>.
\<close>

datatype form_value = FString string | FFile "byte list" string

type_synonym form_data = "(string \<times> form_value) list"

definition getAll :: "string \<Rightarrow> form_data \<Rightarrow> form_value list" where
  "getAll name fd = map snd (filter (\<lambda>e. fst e = name) fd)"

record request =
  url :: string
  http_method :: string
  body :: form_data
  headers :: "(string \<times> string) list"

text \<open>
  A response, as the loader consumes it: the status, and what \<open>text()\<close> and \<open>json()\<close>
  settle to (the body text, the decoded body, or the error they reject with).
  \<open>ok\<close> is the Fetch standard's: a status from 200 to 299.
\<close>

record 'n response =
  status :: nat
  text_result :: "js_error + string"
  json_result :: "js_error + 'n jsval"

definition ok :: "'n response \<Rightarrow> bool" where
  "ok r = (200 \<le> status r \<and> status r \<le> 299)"

text \<open>
  The platform: \<open>fetch\<close> (which may reject) and the rendering of numbers in template
  literals.
\<close>

record 'n platform =
  fetch :: "request \<Rightarrow> js_error + 'n response"
  Number_toString :: "'n \<Rightarrow> string"

definition build_formData :: "UnstructuredWebLoader \<Rightarrow> form_data" where
  "build_formData this =
     (let fileName = pop (split_slash (filePath this)) in
      [(''files'', FFile (buffer this) (nullish fileName ''blob'')),
       (''strategy'', FString (strategy this))]
      @ map (\<lambda>language. (''ocr_languages'', FString language)) (ocrLanguages this)
      @ (case encoding this of
           None \<Rightarrow> []
         | Some e \<Rightarrow> if e \<noteq> [] then [(''encoding'', FString e)] else [])
      @ (if coordinates this = Some True then [(''coordinates'', FString ''true'')] else [])
      @ (if pdfInferTableStructure this = Some True
         then [(''pdf_infer_table_structure'', FString ''true'')] else [])
      @ (if xmlKeepTags this = Some True then [(''xml_keep_tags'', FString ''true'')] else []))"

definition build_request :: "UnstructuredWebLoader \<Rightarrow> request" where
  "build_request this =
     \<lparr>url = apiUrl this,
      http_method = ''POST'',
      body = build_formData this,
      headers = [(''UNSTRUCTURED-API-KEY'', nullish (apiKey this) '''')]\<rparr>"

text \<open>\<open>elements.filter((el) => typeof el.text === "string")\<close>; the callback may raise.\<close>

fun filter_elements :: "'n jsval list \<Rightarrow> js_error + 'n jsval list" where
  "filter_elements [] = Inr []"
| "filter_elements (el # els) =
     (case get_prop el ''text'' of
        Inl e \<Rightarrow> Inl e
      | Inr t \<Rightarrow>
          (case filter_elements els of
             Inl e \<Rightarrow> Inl e
           | Inr r \<Rightarrow> Inr (if typeof t = ''string'' then el # r else r)))"

text \<open>
  \<open>_partition\<close>, after the request has been sent: what it does with the settled
  \<open>fetch\<close>.
\<close>

definition handle_response ::
  "'n platform \<Rightarrow> UnstructuredWebLoader \<Rightarrow> 'n response \<Rightarrow> js_error + 'n jsval list" where
  "handle_response env this r =
     (if \<not> ok r then
        (case text_result r of
           Inl e \<Rightarrow> Inl e
         | Inr t \<Rightarrow>
             Inl (JsError Error
                    (''Failed to partition file '' @ filePath this @ '' with error ''
                       @ show_nat (status r) @ '' and message '' @ t) None))
      else
        (case json_result r of
           Inl e \<Rightarrow> Inl e
         | Inr elements \<Rightarrow>
             (case elements of
                Arr els \<Rightarrow> filter_elements els
              | _ \<Rightarrow>
                  (case ToString (Number_toString env) elements of
                     Inl e \<Rightarrow> Inl e
                   | Inr s \<Rightarrow>
                       Inl (JsError Error
                              (''Expected partitioning request to return an array, but got '' @ s)
                              None)))))"

text \<open>
  \<open>_partition\<close>: the result, and the requests it has issued. The name cannot start with
  an underscore here.
\<close>

definition partition_request ::
  "'n platform \<Rightarrow> UnstructuredWebLoader \<Rightarrow> (js_error + 'n jsval list) \<times> request list" where
  "partition_request env this =
     (let req = build_request this in
      (case fetch env req of
         Inl e \<Rightarrow> Inl e
       | Inr r \<Rightarrow> handle_response env this r,
       [req]))"

text \<open>
  Modelled from the spec: the Document class (imported from document.js, which is not among
  the sources). An Output Record has a content, copied from the element's text, and the
  attributes.
\<close>

record 'n Document =
  pageContent :: string
  metadata :: "(string \<times> 'n jsval) list"

text \<open>
  The loop of \<open>load\<close>. \<open>{...metadata, category: element.type}\<close> copies the own
  properties of \<open>metadata\<close> and then sets \<open>category\<close>: in place when the name is there,
  at the end otherwise. A text whose \<open>typeof\<close> is \<open>string\<close> is a \<open>Str\<close>.
\<close>

fun load_loop :: "'n jsval list \<Rightarrow> 'n Document list \<Rightarrow> js_error + 'n Document list" where
  "load_loop [] documents = Inr documents"
| "load_loop (element # rest) documents =
     (case get_prop element ''metadata'' of
        Inl e \<Rightarrow> Inl e
      | Inr md \<Rightarrow>
          (case get_prop element ''text'' of
             Inl e \<Rightarrow> Inl e
           | Inr t \<Rightarrow>
               (case t of
                  Str s \<Rightarrow>
                    (case get_prop element ''type'' of
                       Inl e \<Rightarrow> Inl e
                     | Inr ty \<Rightarrow>
                         load_loop rest
                           (documents @
                              [\<lparr>pageContent = s,
                                metadata = AList.update ''category'' ty (spread md)\<rparr>]))
                | _ \<Rightarrow> load_loop rest documents)))"

definition load ::
  "'n platform \<Rightarrow> UnstructuredWebLoader \<Rightarrow> (js_error + 'n Document list) \<times> request list" where
  "load env this =
     (case partition_request env this of
        (Inl e, reqs) \<Rightarrow> (Inl e, reqs)
      | (Inr elements, reqs) \<Rightarrow> (load_loop elements [], reqs))"

section \<open>Retrieval and orchestration (S3Loader)\<close>

text \<open>
  The object store, as \<open>load\<close> consumes it: building the client may raise; \<open>send\<close> of a
  get-object command for a bucket and a key rejects or gives an output whose \<open>Body\<close> may
  be undefined; \<open>transformToByteArray\<close> rejects or gives the bytes.
\<close>

record GetObjectOutput =
  Body :: "(js_error + byte list) option"

record S3Client =
  send :: "string \<Rightarrow> string \<Rightarrow> js_error + GetObjectOutput"

text \<open>What an invocation does to the outside, in order.\<close>

datatype event = GetObject string string | PartitionRequest request

text \<open>
  The loader class handed to the constructor (\<open>UnstructuredLoader\<close>, by default
  UnstructuredWebLoader): constructing it on a path, the bytes and the options, and calling
  its \<open>load\<close>.
\<close>

type_synonym 'n loader_class =
  "string \<Rightarrow> byte list \<Rightarrow> UnstructuredLoaderOptions \<Rightarrow> (js_error + 'n Document list) \<times> request list"

definition UnstructuredLoaderDefault :: "'n platform \<Rightarrow> 'n loader_class" where
  "UnstructuredLoaderDefault env fp buf options = load env (new_UnstructuredWebLoader fp buf options)"

record 'n S3Loader =
  bucket :: string
  key :: string
  unstructuredAPIURL :: string
  unstructuredAPIKey :: string
  s3Config :: "js_error + S3Client"
  UnstructuredLoader :: "'n loader_class"

text \<open>
  The field \<open>s3Config\<close> stands for what \<open>new S3Client(this.s3Config)\<close> gives: the
  error it raises, or the client.

  The first \<open>try\<close> block: the bytes or the error caught, and the store requests made.
\<close>

definition download :: "'n S3Loader \<Rightarrow> (js_error + byte list) \<times> event list" where
  "download this =
     (case s3Config this of
        Inl e \<Rightarrow> (Inl e, [])
      | Inr s3Client \<Rightarrow>
          (case send s3Client (bucket this) (key this) of
             Inl e \<Rightarrow> Inl e
           | Inr response \<Rightarrow>
               (case Body response of
                  None \<Rightarrow>
                    Inl (JsError TypeError
                      ''Cannot read properties of undefined (reading 'transformToByteArray')'' None)
                | Some b \<Rightarrow> b),
           [GetObject (bucket this) (key this)]))"

text \<open>The options of the second stage: the endpoint and the credential, nothing else.\<close>

definition partition_options :: "'n S3Loader \<Rightarrow> UnstructuredLoaderOptions" where
  "partition_options this =
     no_options\<lparr>opt_apiUrl := Some (unstructuredAPIURL this),
                opt_apiKey := Some (unstructuredAPIKey this)\<rparr>"

definition S3Loader_load :: "'n S3Loader \<Rightarrow> (js_error + 'n Document list) \<times> event list" where
  "S3Loader_load this =
     (let filePath = key this in
      (case download this of
         (Inl e, evs) \<Rightarrow>
           (Inl (JsError Error
                   (''Failed to download file '' @ key this @ '' from S3 bucket '' @ bucket this
                      @ '': '' @ message e) None),
            evs)
       | (Inr objectData, evs) \<Rightarrow>
           (let options = partition_options this
            in (case UnstructuredLoader this filePath objectData options of
                  (Inl e, reqs) \<Rightarrow>
                    (Inl (JsError Error
                            (''Failed to load file '' @ filePath @ '' using unstructured loader.'')
                            None),
                     evs @ map PartitionRequest reqs)
                | (Inr docs, reqs) \<Rightarrow> (Inr docs, evs @ map PartitionRequest reqs)))))"

section \<open>Observations on elements and results\<close>

text \<open>
  What the statements below say about an element of the decoded array: the value of a
  property (\<open>undefined\<close> where reading gives nothing), the text where it is a string,
  whether the element is retained, and the record the loop builds for a retained element.
\<close>

definition prop_of :: "'n jsval \<Rightarrow> string \<Rightarrow> 'n jsval" where
  "prop_of el k = (case get_prop el k of Inl e \<Rightarrow> Undefined | Inr v \<Rightarrow> v)"

definition text_of :: "'n jsval \<Rightarrow> string option" where
  "text_of el = (case prop_of el ''text'' of Str s \<Rightarrow> Some s | _ \<Rightarrow> None)"

definition retained :: "'n jsval \<Rightarrow> bool" where
  "retained el = (text_of el \<noteq> None)"

definition record_of :: "'n jsval \<Rightarrow> 'n Document" where
  "record_of el =
     \<lparr>pageContent = (case text_of el of None \<Rightarrow> [] | Some s \<Rightarrow> s),
      metadata = AList.update ''category'' (prop_of el ''type'') (spread (prop_of el ''metadata''))\<rparr>"

text \<open>An element whose properties can be read: neither \<open>null\<close> nor \<open>undefined\<close>.\<close>

definition readable :: "'n jsval \<Rightarrow> bool" where
  "readable el = (el \<noteq> Null \<and> el \<noteq> Undefined)"

text \<open>\<open>Array.isArray\<close>.\<close>

definition is_array :: "'n jsval \<Rightarrow> bool" where
  "is_array v = (case v of Arr xs \<Rightarrow> True | _ \<Rightarrow> False)"

text \<open>An object with an own property named \<open>toString\<close>.\<close>

definition has_own_toString :: "'n jsval \<Rightarrow> bool" where
  "has_own_toString v = (case v of Obj ps \<Rightarrow> ''toString'' \<in> set (map fst ps) | _ \<Rightarrow> False)"

text \<open>
  A metadata value that is not an object and whose spread has no property: \<open>undefined\<close>
  (the field is absent), \<open>null\<close>, a boolean, a number, the empty string, the empty array.
\<close>

definition contributes_no_keys :: "'n jsval \<Rightarrow> bool" where
  "contributes_no_keys md =
     (case md of Undefined \<Rightarrow> True | Null \<Rightarrow> True | Bool b \<Rightarrow> True | Num n \<Rightarrow> True
      | Str s \<Rightarrow> s = [] | Arr xs \<Rightarrow> xs = [] | Obj ps \<Rightarrow> False)"

text \<open>The class of the error a call fails with, if it fails.\<close>

definition failure_kind :: "js_error + 'a \<Rightarrow> error_class option" where
  "failure_kind res = (case res of Inl e \<Rightarrow> Some (err_class e) | Inr x \<Rightarrow> None)"

section \<open>Concrete platforms, stores and bodies\<close>

text \<open>
  Stand-ins for the service and the store, used where a statement is evaluated on a
  concrete input: a \<open>fetch\<close> that settles to a given response, responses with a decoded
  body or with a body text only, a \<open>send\<close> that settles to a given outcome.
\<close>

definition respond :: "'n response \<Rightarrow> request \<Rightarrow> js_error + 'n response" where
  "respond r req = Inr r"

definition mock_platform :: "nat response \<Rightarrow> nat platform" where
  "mock_platform r = \<lparr>fetch = respond r, Number_toString = show_nat\<rparr>"

definition json_response :: "nat \<Rightarrow> nat jsval \<Rightarrow> nat response" where
  "json_response st v = \<lparr>status = st, text_result = Inr [], json_result = Inr v\<rparr>"

definition text_response :: "nat \<Rightarrow> string \<Rightarrow> nat response" where
  "text_response st t =
     \<lparr>status = st, text_result = Inr t,
      json_result = Inl (JsError SyntaxError ''Unexpected token in JSON'' None)\<rparr>"

definition example_loader :: UnstructuredWebLoader where
  "example_loader = new_UnstructuredWebLoader ''docs/report.pdf'' [1, 2, 3] no_options"

definition fast_options :: UnstructuredLoaderOptions where
  "fast_options = no_options\<lparr>opt_strategy := Some ''fast'',
     opt_ocrLanguages := Some [''eng'', ''fra''], opt_coordinates := Some True\<rparr>"

definition hello_elements :: "nat jsval list" where
  "hello_elements =
     [Obj [(''type'', Str ''Title''), (''text'', Str ''Hello''),
           (''metadata'', Obj [(''page'', Num 1)])],
      Obj [(''type'', Str ''Marker'')]]"

definition category_elements :: "nat jsval list" where
  "category_elements =
     [Obj [(''type'', Str ''Y''), (''text'', Str ''b''),
           (''metadata'', Obj [(''category'', Str ''X''), (''page'', Num 2)])],
      Num 7,
      Obj [(''type'', Str ''Z''), (''text'', Str ''a'')],
      Obj [(''type'', Str ''Y''), (''text'', Str ''b''),
           (''metadata'', Obj [(''category'', Str ''X''), (''page'', Num 2)])]]"

definition string_metadata_elements :: "nat jsval list" where
  "string_metadata_elements =
     [Obj [(''type'', Str ''T''), (''text'', Str ''t''), (''metadata'', Str ''ab'')]]"

definition bare_elements :: "nat jsval list" where
  "bare_elements =
     [Obj [(''type'', Str ''T''), (''text'', Str ''t'')],
      Obj [(''text'', Str ''u''), (''metadata'', Num 5)],
      Obj [(''type'', Str ''V''), (''text'', Str ''v''), (''metadata'', Null)]]"

definition null_neighbour_elements :: "nat jsval list" where
  "null_neighbour_elements = [Obj [(''type'', Str ''T''), (''text'', Str ''t'')], Null]"

definition answer ::
  "(js_error + GetObjectOutput) \<Rightarrow> string \<Rightarrow> string \<Rightarrow> js_error + GetObjectOutput" where
  "answer out b k = out"

definition failing_store :: "js_error + S3Client" where
  "failing_store =
     Inr \<lparr>send = answer (Inl (JsError (OtherClass ''NoSuchKey'')
                                 ''The specified key does not exist.'' None))\<rparr>"

definition broken_body_store :: "js_error + S3Client" where
  "broken_body_store =
     Inr \<lparr>send = answer (Inr \<lparr>Body = Some (Inl (JsError Error ''aborted'' None))\<rparr>)\<rparr>"

definition empty_body_store :: "js_error + S3Client" where
  "empty_body_store = Inr \<lparr>send = answer (Inr \<lparr>Body = None\<rparr>)\<rparr>"

definition no_client_store :: "js_error + S3Client" where
  "no_client_store = Inl (JsError Error ''Region is missing'' None)"

definition working_store :: "byte list \<Rightarrow> js_error + S3Client" where
  "working_store bytes = Inr \<lparr>send = answer (Inr \<lparr>Body = Some (Inr bytes)\<rparr>)\<rparr>"

definition example_s3 :: "js_error + S3Client \<Rightarrow> nat platform \<Rightarrow> nat S3Loader" where
  "example_s3 store env =
     \<lparr>bucket = ''my-bucket'', key = ''reports/2023/q1.pdf'',
      unstructuredAPIURL = ''http://localhost:8000/general/v0/general'',
      unstructuredAPIKey = ''secret'',
      s3Config = store,
      UnstructuredLoader = UnstructuredLoaderDefault env\<rparr>"

section \<open>Lemmas on the partitioning client\<close>

lemmas eval_load = load_def partition_request_def handle_response_def ok_def mock_platform_def
  respond_def json_response_def text_response_def example_loader_def quoted_def

lemmas eval_s3 = S3Loader_load_def download_def example_s3_def failing_store_def
  broken_body_store_def empty_body_store_def no_client_store_def working_store_def answer_def UnstructuredLoaderDefault_def partition_options_def no_options_def
  new_UnstructuredWebLoader_def nullish_def Let_def

lemma get_prop_readable: "readable el \<Longrightarrow> get_prop el k = Inr (prop_of el k)"
  by (cases el) (simp_all add: prop_of_def readable_def)

lemma get_prop_unreadable: "\<not> readable el \<Longrightarrow> \<exists>e. get_prop el k = Inl e"
  by (cases el) (simp_all add: readable_def)

lemma retained_iff: "retained el \<longleftrightarrow> typeof (prop_of el ''text'') = ''string''"
  by (cases "prop_of el ''text''") (simp_all add: retained_def text_of_def)

lemma filter_elements_readable:
  "list_all readable els \<Longrightarrow> filter_elements els = Inr (filter retained els)"
  by (induction els) (simp_all add: get_prop_readable retained_iff)

lemma filter_elements_unreadable:
  "\<not> list_all readable els \<Longrightarrow> \<exists>e. filter_elements els = Inl e"
proof (induction els)
  case Nil
  then show ?case by simp
next
  case (Cons el els)
  show ?case
  proof (cases "readable el")
    case True
    with Cons show ?thesis by (auto simp: get_prop_readable)
  next
    case False
    then obtain e where "get_prop el ''text'' = Inl e"
      using get_prop_unreadable by blast
    then show ?thesis by simp
  qed
qed

lemma load_loop_step:
  assumes "readable el"
  shows "load_loop (el # rest) acc =
           load_loop rest (if retained el then acc @ [record_of el] else acc)"
proof (cases "prop_of el ''text''")
  case (Str s)
  then show ?thesis using assms
    by (simp add: get_prop_readable retained_def text_of_def record_of_def)
qed (use assms in \<open>simp_all add: get_prop_readable retained_def text_of_def\<close>)

lemma load_loop_readable:
  "list_all readable els \<Longrightarrow>
     load_loop els acc = Inr (acc @ map record_of (filter retained els))"
proof (induction els arbitrary: acc)
  case Nil
  then show ?case by simp
next
  case (Cons el els)
  then have "readable el" and "list_all readable els" by simp_all
  then show ?case using Cons.IH by (simp add: load_loop_step del: load_loop.simps)
qed

lemma list_all_readable_filter: "list_all readable els \<Longrightarrow> list_all readable (filter P els)"
  by (induction els) simp_all

lemma load_array:
  assumes "fetch env (build_request this) = Inr r" and "ok r"
      and "json_result r = Inr (Arr els)"
  shows "list_all readable els \<Longrightarrow>
           fst (load env this) = Inr (map record_of (filter retained els))"
    and "\<not> list_all readable els \<Longrightarrow> \<exists>e. fst (load env this) = Inl e"
proof -
  have p: "fst (partition_request env this) = filter_elements els"
    using assms by (simp add: partition_request_def handle_response_def Let_def)
  {
    assume a: "list_all readable els"
    then have "partition_request env this = (Inr (filter retained els), [build_request this])"
      using p by (simp add: partition_request_def Let_def filter_elements_readable)
    then show "fst (load env this) = Inr (map record_of (filter retained els))"
      using a by (simp add: load_def load_loop_readable list_all_readable_filter)
  }
  {
    assume "\<not> list_all readable els"
    then obtain e where "filter_elements els = Inl e"
      using filter_elements_unreadable by blast
    then have "partition_request env this = (Inl e, [build_request this])"
      using p by (simp add: partition_request_def Let_def)
    then show "\<exists>e. fst (load env this) = Inl e"
      by (simp add: load_def)
  }
qed

lemma record_of_attributes:
  "map_of (metadata (record_of el)) =
     (map_of (spread (prop_of el ''metadata'')))(''category'' \<mapsto> prop_of el ''type'')"
  by (simp add: record_of_def update_conv')

lemma record_of_text: "retained el \<Longrightarrow> text_of el = Some (pageContent (record_of el))"
  by (auto simp: retained_def record_of_def)

lemma spread_no_keys: "contributes_no_keys md \<Longrightarrow> spread md = []"
  by (cases md) (simp_all add: contributes_no_keys_def)

lemma load_failure:
  "fst (partition_request env this) = Inl e \<Longrightarrow> fst (load env this) = Inl e"
  by (cases "partition_request env this") (simp add: load_def)

lemma ToString_convertible:
  "\<not> is_array v \<Longrightarrow> \<not> has_own_toString v \<Longrightarrow> \<exists>s. ToString ns v = Inr s"
  by (cases v) (simp_all add: is_array_def has_own_toString_def)

lemma handle_non_array:
  assumes "ok r" and "json_result r = Inr v" and "\<not> is_array v"
  shows "handle_response env this r =
           (case ToString (Number_toString env) v of
              Inl e \<Rightarrow> Inl e
            | Inr s \<Rightarrow>
                Inl (JsError Error
                       (''Expected partitioning request to return an array, but got '' @ s) None))"
  using assms by (cases v) (simp_all add: handle_response_def is_array_def)

section \<open>Claims on the transformation of elements\<close>




text \<open>
  C7. For every decoded element array from which records are returned, the records
  correspond one to one, in order, to the retained elements (those whose \<open>text\<close> is a
  string): nothing is reordered or merged. The content of a record is the element's text;
  its attributes are the properties of the element's metadata with \<open>category\<close> set to the
  element's \<open>type\<close>, which replaces a \<open>category\<close> of the metadata.
\<close>

theorem C7_order_and_category:
  assumes "fetch env (build_request this) = Inr r" and "ok r"
      and "json_result r = Inr (Arr els)"
      and "fst (load env this) = Inr docs"
  shows "list_all2
           (\<lambda>el d. text_of el = Some (pageContent d) \<and>
                    map_of (metadata d) =
                      (map_of (spread (prop_of el ''metadata'')))(''category'' \<mapsto> prop_of el ''type'') \<and>
                    (\<forall>md. prop_of el ''metadata'' = Obj md \<longrightarrow>
                       map_of (metadata d) = (map_of md)(''category'' \<mapsto> prop_of el ''type'')))
           (filter retained els) docs"
proof -
  have "list_all readable els"
    using load_array(2) [OF assms(1-3)] assms(4) by auto
  then have "docs = map record_of (filter retained els)"
    using load_array(1) [OF assms(1-3)] assms(4) by simp
  then show ?thesis
    by (simp add: list_all2_map2 list_all2_same record_of_text record_of_attributes)
qed

text \<open>
  Two equal elements stay two records, a non-element between them is dropped, and the
  metadata's \<open>category: "X"\<close> becomes \<open>category: "Y"\<close>.
\<close>

theorem C7_order_and_category_witness:
  "fst (load (mock_platform (json_response 200 (Arr category_elements))) example_loader) =
     Inr [\<lparr>pageContent = ''b'', metadata = [(''category'', Str ''Y''), (''page'', Num 2)]\<rparr>,
          \<lparr>pageContent = ''a'', metadata = [(''category'', Str ''Z'')]\<rparr>,
          \<lparr>pageContent = ''b'', metadata = [(''category'', Str ''Y''), (''page'', Num 2)]\<rparr>] \<and>
   list_all2
     (\<lambda>el d. text_of el = Some (pageContent d) \<and>
              map_of (metadata d) =
                (map_of (spread (prop_of el ''metadata'')))(''category'' \<mapsto> prop_of el ''type'') \<and>
              (\<forall>md. prop_of el ''metadata'' = Obj md \<longrightarrow>
                 map_of (metadata d) = (map_of md)(''category'' \<mapsto> prop_of el ''type'')))
     (filter retained category_elements)
     [\<lparr>pageContent = ''b'', metadata = [(''category'', Str ''Y''), (''page'', Num 2)]\<rparr>,
      \<lparr>pageContent = ''a'', metadata = [(''category'', Str ''Z'')]\<rparr>,
      \<lparr>pageContent = ''b'', metadata = [(''category'', Str ''Y''), (''page'', Num 2)]\<rparr>]"
proof -
  let ?r = "json_response 200 (Arr category_elements)"
  have f: "fetch (mock_platform ?r) (build_request example_loader) = Inr ?r"
    by (simp add: mock_platform_def respond_def)
  have k: "ok ?r" by (simp add: ok_def json_response_def)
  have j: "json_result ?r = Inr (Arr category_elements)" by (simp add: json_response_def)
  have l: "fst (load (mock_platform ?r) example_loader) =
     Inr [\<lparr>pageContent = ''b'', metadata = [(''category'', Str ''Y''), (''page'', Num 2)]\<rparr>,
          \<lparr>pageContent = ''a'', metadata = [(''category'', Str ''Z'')]\<rparr>,
          \<lparr>pageContent = ''b'', metadata = [(''category'', Str ''Y''), (''page'', Num 2)]\<rparr>]"
    by (simp add: eval_load category_elements_def)
  show ?thesis
    using l C7_order_and_category [OF f k j l] by simp
qed

text \<open>
  C9 (as amended). For every element whose \<open>text\<close> is a string and whose \<open>metadata\<close> is
  absent, \<open>null\<close>, a boolean, a number, an empty string or an empty array, the loop of load
  produces a record for it without failing at that element, and the record's attributes
  are exactly the \<open>category\<close> key set to the element's \<open>type\<close>. Hence, for every 2xx
  response whose body decodes to an array with no \<open>null\<close> element, load returns the records
  without failing, and the record of each such element has exactly that attribute.
\<close>

theorem C9_metadata_without_keys:
  "(text_of el = Some s \<and> contributes_no_keys (prop_of el ''metadata'') \<longrightarrow>
      load_loop (el # rest) documents =
        load_loop rest
          (documents @ [\<lparr>pageContent = s, metadata = [(''category'', prop_of el ''type'')]\<rparr>])) \<and>
   (fetch env (build_request this) = Inr r \<and> ok r \<and> json_result r = Inr (Arr els) \<and>
    (\<forall>x \<in> set els. x \<noteq> Null \<and> x \<noteq> Undefined) \<longrightarrow>
      (\<exists>docs. fst (load env this) = Inr docs \<and>
         list_all2
           (\<lambda>x d. text_of x = Some (pageContent d) \<and>
                    (contributes_no_keys (prop_of x ''metadata'') \<longrightarrow>
                       metadata d = [(''category'', prop_of x ''type'')]))
           (filter retained els) docs))"
proof (intro conjI impI)
  assume a: "text_of el = Some s \<and> contributes_no_keys (prop_of el ''metadata'')"
  then have "readable el"
    by (cases el) (simp_all add: text_of_def prop_of_def readable_def)
  moreover have "retained el" using a by (simp add: retained_def)
  moreover have "record_of el =
      \<lparr>pageContent = s, metadata = [(''category'', prop_of el ''type'')]\<rparr>"
    using a by (simp add: record_of_def spread_no_keys)
  ultimately show "load_loop (el # rest) documents =
        load_loop rest
          (documents @ [\<lparr>pageContent = s, metadata = [(''category'', prop_of el ''type'')]\<rparr>])"
    by (simp add: load_loop_step del: load_loop.simps)
next
  assume b: "fetch env (build_request this) = Inr r \<and> ok r \<and> json_result r = Inr (Arr els) \<and>
    (\<forall>x \<in> set els. x \<noteq> Null \<and> x \<noteq> Undefined)"
  then have "list_all readable els"
    by (simp add: list_all_iff readable_def)
  then have "fst (load env this) = Inr (map record_of (filter retained els))"
    using load_array(1) [of env this r els] b by simp
  moreover have "list_all2
             (\<lambda>x d. text_of x = Some (pageContent d) \<and>
                      (contributes_no_keys (prop_of x ''metadata'') \<longrightarrow>
                         metadata d = [(''category'', prop_of x ''type'')]))
             (filter retained els) (map record_of (filter retained els))"
    by (simp add: list_all2_map2 list_all2_same record_of_text)
       (simp add: record_of_def spread_no_keys)
  ultimately show "\<exists>docs. fst (load env this) = Inr docs \<and>
         list_all2
           (\<lambda>x d. text_of x = Some (pageContent d) \<and>
                    (contributes_no_keys (prop_of x ''metadata'') \<longrightarrow>
                       metadata d = [(''category'', prop_of x ''type'')]))
           (filter retained els) docs"
    by blast
qed

text \<open>
  Metadata absent, a number and \<open>null\<close>; the second element has no \<open>type\<close>. The first
  element alone, in front of a \<open>null\<close>: its step of the loop pushes its record.
\<close>

theorem C9_metadata_without_keys_witness:
  "list_all readable bare_elements \<and>
   list_all (\<lambda>el. contributes_no_keys (prop_of el ''metadata'')) (filter retained bare_elements) \<and>
   fst (load (mock_platform (json_response 200 (Arr bare_elements))) example_loader) =
     Inr [\<lparr>pageContent = ''t'', metadata = [(''category'', Str ''T'')]\<rparr>,
          \<lparr>pageContent = ''u'', metadata = [(''category'', Undefined)]\<rparr>,
          \<lparr>pageContent = ''v'', metadata = [(''category'', Str ''V'')]\<rparr>] \<and>
   text_of (Obj [(''type'', Str ''T''), (''text'', Str ''t'')] :: nat jsval) = Some ''t'' \<and>
   contributes_no_keys (prop_of (Obj [(''type'', Str ''T''), (''text'', Str ''t'')] :: nat jsval)
                          ''metadata'') \<and>
   load_loop [Obj [(''type'', Str ''T''), (''text'', Str ''t'')], Null :: nat jsval] [] =
     load_loop [Null] [\<lparr>pageContent = ''t'', metadata = [(''category'', Str ''T'')]\<rparr>]"
proof -
  let ?r = "json_response 200 (Arr bare_elements)"
  let ?el = "Obj [(''type'', Str ''T''), (''text'', Str ''t'')] :: nat jsval"
  have f: "fetch (mock_platform ?r) (build_request example_loader) = Inr ?r"
    by (simp add: mock_platform_def respond_def)
  have k: "ok ?r" by (simp add: ok_def json_response_def)
  have j: "json_result ?r = Inr (Arr bare_elements)" by (simp add: json_response_def)
  have n: "\<forall>el \<in> set bare_elements. el \<noteq> Null \<and> el \<noteq> Undefined"
    by (simp add: bare_elements_def)
  have c: "list_all (\<lambda>el. contributes_no_keys (prop_of el ''metadata''))
             (filter retained bare_elements)"
    by (simp add: bare_elements_def prop_of_def text_of_def retained_def contributes_no_keys_def)
  have a: "list_all readable bare_elements"
    by (simp add: bare_elements_def readable_def)
  have t: "text_of ?el = Some ''t''"
    by (simp add: text_of_def prop_of_def)
  have m: "contributes_no_keys (prop_of ?el ''metadata'')"
    by (simp add: prop_of_def contributes_no_keys_def)
  have p: "prop_of ?el ''type'' = Str ''T''"
    by (simp add: prop_of_def)
  have l: "fst (load (mock_platform ?r) example_loader) =
     Inr [\<lparr>pageContent = ''t'', metadata = [(''category'', Str ''T'')]\<rparr>,
          \<lparr>pageContent = ''u'', metadata = [(''category'', Undefined)]\<rparr>,
          \<lparr>pageContent = ''v'', metadata = [(''category'', Str ''V'')]\<rparr>]"
    by (simp add: eval_load bare_elements_def)
  have s: "load_loop [?el, Null] [] =
     load_loop [Null] [\<lparr>pageContent = ''t'', metadata = [(''category'', Str ''T'')]\<rparr>]"
    using C9_metadata_without_keys [of ?el "''t''" "[Null]" "[]" "mock_platform ?r"
        example_loader ?r bare_elements] t m p f k j n
    by (simp del: load_loop.simps)
  show ?thesis
    using a c l t m s by simp
qed

text \<open>
  C9 as stated fails: a metadata that is a non-empty string is not an object, and its
  spread contributes one key per character, so the attributes are not the \<open>category\<close>
  key alone. And an element without metadata gets no record when a \<open>null\<close> stands in the
  same array: the call fails before the loop.
\<close>

theorem C9_string_metadata_counterexample:
  "fst (load (mock_platform (json_response 200 (Arr string_metadata_elements))) example_loader) =
     Inr [\<lparr>pageContent = ''t'',
           metadata = [(''0'', Str ''a''), (''1'', Str ''b''), (''category'', Str ''T'')]\<rparr>] \<and>
   fst (load (mock_platform (json_response 200 (Arr null_neighbour_elements))) example_loader) =
     Inl (JsError TypeError (''Cannot read properties of null (reading '' @ quoted ''text'' @ '')'')
            None)"
  by (simp add: eval_load string_metadata_elements_def null_neighbour_elements_def
      show_nat.simps digit_char_def upt_rec)

section \<open>Claims on the request and on the response\<close>

lemma split_slash_not_Nil: "split_slash s \<noteq> []"
  by (induction s) (simp_all split: list.split)

lemma pop_split_slash: "pop (split_slash s) = Some (last (split_slash s))"
  by (simp add: pop_def split_slash_not_Nil)

lemma requests_of_partition: "snd (partition_request env this) = [build_request this]"
  by (simp add: partition_request_def Let_def)

lemma requests_of_load: "snd (load env this) = [build_request this]"
proof -
  obtain res reqs where p: "partition_request env this = (res, reqs)"
    by (cases "partition_request env this")
  then have "reqs = [build_request this]"
    using requests_of_partition [of env this] by simp
  then show ?thesis using p by (cases res) (simp_all add: load_def)
qed

lemma getAll_append: "getAll k (xs @ ys) = getAll k xs @ getAll k ys"
  by (simp add: getAll_def)

lemma getAll_Cons: "getAll k ((n, v) # xs) = (if n = k then v # getAll k xs else getAll k xs)"
  by (simp add: getAll_def)

lemma getAll_Nil: "getAll k [] = []"
  by (simp add: getAll_def)

lemma getAll_languages:
  "getAll k (map (\<lambda>language. (''ocr_languages'', FString language)) ls) =
     (if k = ''ocr_languages'' then map FString ls else [])"
  by (induction ls) (simp_all add: getAll_def)

text \<open>
  C2. For every configuration, partition issues a single POST request whose form holds:
  the payload, as one file part whose file name is the final segment of the path; one
  \<open>strategy\<close> entry, the configured strategy or \<open>hi_res\<close>; one \<open>ocr_languages\<close> entry per
  language code, in order; an \<open>encoding\<close> entry exactly when a non-empty encoding was
  supplied; \<open>coordinates\<close>, \<open>pdf_infer_table_structure\<close> and \<open>xml_keep_tags\<close> entries,
  each the string \<open>true\<close>, exactly when the corresponding option is \<open>true\<close>; and no other
  entry. The credential header is always sent, empty when no credential was supplied.
\<close>

theorem C2_request_fields:
  "\<exists>req. snd (load env (new_UnstructuredWebLoader fp buf options)) = [req] \<and>
     http_method req = ''POST'' \<and>
     getAll ''files'' (body req) = [FFile buf (last (split_slash fp))] \<and>
     getAll ''strategy'' (body req) =
       [FString (case opt_strategy options of None \<Rightarrow> ''hi_res'' | Some s \<Rightarrow> s)] \<and>
     getAll ''ocr_languages'' (body req) =
       map FString (case opt_ocrLanguages options of None \<Rightarrow> [] | Some ls \<Rightarrow> ls) \<and>
     getAll ''encoding'' (body req) =
       (case opt_encoding options of None \<Rightarrow> [] | Some e \<Rightarrow> if e = [] then [] else [FString e]) \<and>
     getAll ''coordinates'' (body req) =
       (if opt_coordinates options = Some True then [FString ''true''] else []) \<and>
     getAll ''pdf_infer_table_structure'' (body req) =
       (if opt_pdfInferTableStructure options = Some True then [FString ''true''] else []) \<and>
     getAll ''xml_keep_tags'' (body req) =
       (if opt_xmlKeepTags options = Some True then [FString ''true''] else []) \<and>
     set (map fst (body req)) \<subseteq>
       {''files'', ''strategy'', ''ocr_languages'', ''encoding'', ''coordinates'',
        ''pdf_infer_table_structure'', ''xml_keep_tags''} \<and>
     headers req =
       [(''UNSTRUCTURED-API-KEY'', case opt_apiKey options of None \<Rightarrow> [] | Some k \<Rightarrow> k)]"
proof -
  let ?ldr = "new_UnstructuredWebLoader fp buf options"
  let ?req = "build_request ?ldr"
  have b: "body ?req = build_formData ?ldr" by (simp add: build_request_def)
  have 1: "getAll ''files'' (build_formData ?ldr) = [FFile buf (last (split_slash fp))]"
    by (simp add: build_formData_def new_UnstructuredWebLoader_def pop_split_slash nullish_def
        getAll_append getAll_Cons getAll_Nil getAll_languages split: option.split)
  have 2: "getAll ''strategy'' (build_formData ?ldr) =
       [FString (case opt_strategy options of None \<Rightarrow> ''hi_res'' | Some s \<Rightarrow> s)]"
    by (simp add: build_formData_def new_UnstructuredWebLoader_def pop_split_slash nullish_def
        getAll_append getAll_Cons getAll_Nil getAll_languages split: option.split)
  have 3: "getAll ''ocr_languages'' (build_formData ?ldr) =
       map FString (case opt_ocrLanguages options of None \<Rightarrow> [] | Some ls \<Rightarrow> ls)"
    by (simp add: build_formData_def new_UnstructuredWebLoader_def pop_split_slash nullish_def
        getAll_append getAll_Cons getAll_Nil getAll_languages split: option.split)
  have 4: "getAll ''encoding'' (build_formData ?ldr) =
       (case opt_encoding options of None \<Rightarrow> [] | Some e \<Rightarrow> if e = [] then [] else [FString e])"
    by (simp add: build_formData_def new_UnstructuredWebLoader_def pop_split_slash nullish_def
        getAll_append getAll_Cons getAll_Nil getAll_languages split: option.split)
  have 5: "getAll ''coordinates'' (build_formData ?ldr) =
       (if opt_coordinates options = Some True then [FString ''true''] else [])"
    by (simp add: build_formData_def new_UnstructuredWebLoader_def pop_split_slash nullish_def
        getAll_append getAll_Cons getAll_Nil getAll_languages split: option.split)
  have 6: "getAll ''pdf_infer_table_structure'' (build_formData ?ldr) =
       (if opt_pdfInferTableStructure options = Some True then [FString ''true''] else [])"
    by (simp add: build_formData_def new_UnstructuredWebLoader_def pop_split_slash nullish_def
        getAll_append getAll_Cons getAll_Nil getAll_languages split: option.split)
  have 7: "getAll ''xml_keep_tags'' (build_formData ?ldr) =
       (if opt_xmlKeepTags options = Some True then [FString ''true''] else [])"
    by (simp add: build_formData_def new_UnstructuredWebLoader_def pop_split_slash nullish_def
        getAll_append getAll_Cons getAll_Nil getAll_languages split: option.split)
  have 8: "set (map fst (build_formData ?ldr)) \<subseteq>
       {''files'', ''strategy'', ''ocr_languages'', ''encoding'', ''coordinates'',
        ''pdf_infer_table_structure'', ''xml_keep_tags''}"
    by (auto simp: build_formData_def new_UnstructuredWebLoader_def Let_def split: option.split)
  have 9: "headers ?req =
       [(''UNSTRUCTURED-API-KEY'', case opt_apiKey options of None \<Rightarrow> [] | Some k \<Rightarrow> k)]"
    by (simp add: build_request_def new_UnstructuredWebLoader_def nullish_def)
  have 0: "http_method ?req = ''POST''" by (simp add: build_request_def)
  show ?thesis
    using requests_of_load [of env ?ldr] 0 1 2 3 4 5 6 7 8 9 b by simp
qed

text \<open>
  The configuration \<open>{strategy: "fast", ocrLanguages: ["eng", "fra"], coordinates: true}\<close>.
\<close>

theorem C2_request_fields_witness:
  "snd (load (mock_platform (json_response 200 (Arr []))) 
         (new_UnstructuredWebLoader ''docs/report.pdf'' [1, 2, 3] fast_options)) =
     [\<lparr>url = ''https://api.unstructured.io/general/v0/general'',
       http_method = ''POST'',
       body = [(''files'', FFile [1, 2, 3] ''report.pdf''),
               (''strategy'', FString ''fast''),
               (''ocr_languages'', FString ''eng''),
               (''ocr_languages'', FString ''fra''),
               (''coordinates'', FString ''true'')],
       headers = [(''UNSTRUCTURED-API-KEY'', '''')]\<rparr>]"
  using C2_request_fields [of "mock_platform (json_response 200 (Arr []))" "''docs/report.pdf''"
      "[1, 2, 3]" fast_options]
  by (simp add: eval_load build_request_def build_formData_def new_UnstructuredWebLoader_def
      fast_options_def no_options_def nullish_def pop_def)

text \<open>
  C4. For every response with a non-success status (and a body text \<open>t\<close>), partition fails
  with the error whose message is
  \<open>Failed to partition file <file path> with error <status> and message <t>\<close>: it holds the
  logical file name, the status code in decimal and the whole body text.
\<close>

theorem C4_request_error_message:
  assumes "fetch env (build_request this) = Inr r" and "\<not> ok r"
      and "text_result r = Inr t"
  shows "fst (load env this) =
           Inl (JsError Error
                  (''Failed to partition file '' @ filePath this @ '' with error ''
                     @ show_nat (status r) @ '' and message '' @ t) None) \<and>
         sublist (filePath this)
           (''Failed to partition file '' @ filePath this @ '' with error ''
                     @ show_nat (status r) @ '' and message '' @ t) \<and>
         sublist (show_nat (status r))
           (''Failed to partition file '' @ filePath this @ '' with error ''
                     @ show_nat (status r) @ '' and message '' @ t) \<and>
         suffix t
           (''Failed to partition file '' @ filePath this @ '' with error ''
                     @ show_nat (status r) @ '' and message '' @ t)"
proof -
  have "fst (partition_request env this) =
           Inl (JsError Error
                  (''Failed to partition file '' @ filePath this @ '' with error ''
                     @ show_nat (status r) @ '' and message '' @ t) None)"
    using assms by (simp add: partition_request_def handle_response_def Let_def)
  then have 1: "fst (load env this) =
           Inl (JsError Error
                  (''Failed to partition file '' @ filePath this @ '' with error ''
                     @ show_nat (status r) @ '' and message '' @ t) None)"
    by (rule load_failure)
  have 2: "sublist (filePath this)
           (''Failed to partition file '' @ filePath this @ ('' with error ''
                     @ show_nat (status r) @ '' and message '' @ t))"
    by (rule sublist_appendI)
  have 3: "sublist (show_nat (status r))
           ((''Failed to partition file '' @ filePath this @ '' with error '')
                     @ show_nat (status r) @ ('' and message '' @ t))"
    by (rule sublist_appendI)
  have 4: "suffix t
           ((''Failed to partition file '' @ filePath this @ '' with error ''
                     @ show_nat (status r) @ '' and message '') @ t)"
    by (rule suffixI) simp
  show ?thesis using 1 2 3 4 by simp
qed

text \<open>A 500 response with the body \<open>bad file\<close>.\<close>

theorem C4_request_error_message_witness:
  "\<not> ok (text_response 500 ''bad file'') \<and>
   fst (load (mock_platform (text_response 500 ''bad file'')) example_loader) =
     Inl (JsError Error
       ''Failed to partition file docs/report.pdf with error 500 and message bad file'' None)"
proof -
  let ?r = "text_response 500 ''bad file''"
  have f: "fetch (mock_platform ?r) (build_request example_loader) = Inr ?r"
    by (simp add: mock_platform_def respond_def)
  have k: "\<not> ok ?r" by (simp add: ok_def text_response_def)
  have t: "text_result ?r = Inr ''bad file''" by (simp add: text_response_def)
  have s: "show_nat 500 = ''500''" by (simp add: show_nat.simps digit_char_def)
  show ?thesis
    using k s C4_request_error_message [OF f k t]
    by (simp add: example_loader_def new_UnstructuredWebLoader_def text_response_def)
qed

text \<open>
  The shape error. For every 2xx response whose decoded body is not an array, partition
  fails and returns no records. When the body is not an object with an own property named
  \<open>toString\<close>, the error's message is
  \<open>Expected partitioning request to return an array, but got\<close> followed by the string
  conversion of the body, which is \<open>[object Object]\<close> for every object.
\<close>

lemma shape_error_on_convertible_body:
  assumes "fetch env (build_request this) = Inr r" and "ok r"
      and "json_result r = Inr v" and "\<not> is_array v"
  shows "(\<exists>e. fst (load env this) = Inl e) \<and>
         (\<not> has_own_toString v \<longrightarrow>
            (\<exists>s. ToString (Number_toString env) v = Inr s \<and>
                 fst (load env this) =
                   Inl (JsError Error
                     (''Expected partitioning request to return an array, but got '' @ s) None))) \<and>
         ((\<exists>ps. v = Obj ps) \<and> \<not> has_own_toString v \<longrightarrow>
            fst (load env this) =
              Inl (JsError Error
                ''Expected partitioning request to return an array, but got [object Object]'' None))"
proof -
  have p: "fst (partition_request env this) =
           (case ToString (Number_toString env) v of
              Inl e \<Rightarrow> Inl e
            | Inr s \<Rightarrow>
                Inl (JsError Error
                       (''Expected partitioning request to return an array, but got '' @ s) None))"
    using assms(1) handle_non_array [OF assms(2-4)] by (simp add: partition_request_def Let_def)
  have 1: "\<exists>e. fst (load env this) = Inl e"
    using p load_failure [of env this]
    by (cases "ToString (Number_toString env) v") simp_all
  have 2: "\<exists>s. ToString (Number_toString env) v = Inr s \<and>
                 fst (load env this) =
                   Inl (JsError Error
                     (''Expected partitioning request to return an array, but got '' @ s) None)"
    if h: "\<not> has_own_toString v"
  proof -
    obtain s where s: "ToString (Number_toString env) v = Inr s"
      using ToString_convertible [OF assms(4) h] by blast
    then show ?thesis using p load_failure [of env this] by simp
  qed
  have 3: "fst (load env this) =
              Inl (JsError Error
                ''Expected partitioning request to return an array, but got [object Object]'' None)"
    if "\<exists>ps. v = Obj ps" and "\<not> has_own_toString v"
  proof -
    from that obtain ps where "v = Obj ps" and "''toString'' \<notin> set (map fst ps)"
      by (auto simp: has_own_toString_def)
    then have "ToString (Number_toString env) v = Inr ''[object Object]''" by simp
    then show ?thesis using p load_failure [of env this] by simp
  qed
  show ?thesis using 1 2 3 by blast
qed

text \<open>The body \<open>{"foo": "bar"}\<close>.\<close>

lemma shape_error_on_foo_bar:
  "ok (json_response 200 (Obj [(''foo'', Str ''bar'')])) \<and>
   \<not> is_array (Obj [(''foo'', Str ''bar'')] :: nat jsval) \<and>
   \<not> has_own_toString (Obj [(''foo'', Str ''bar'')] :: nat jsval) \<and>
   fst (load (mock_platform (json_response 200 (Obj [(''foo'', Str ''bar'')]))) example_loader) =
     Inl (JsError Error
       ''Expected partitioning request to return an array, but got [object Object]'' None)"
proof -
  let ?v = "Obj [(''foo'', Str ''bar'')] :: nat jsval"
  let ?r = "json_response 200 ?v"
  have f: "fetch (mock_platform ?r) (build_request example_loader) = Inr ?r"
    by (simp add: mock_platform_def respond_def)
  have k: "ok ?r" by (simp add: ok_def json_response_def)
  have j: "json_result ?r = Inr ?v" by (simp add: json_response_def)
  have a: "\<not> is_array ?v" by (simp add: is_array_def)
  have h: "\<not> has_own_toString ?v" by (simp add: has_own_toString_def)
  show ?thesis
    using k a h shape_error_on_convertible_body [OF f k j a] by simp
qed

text \<open>
  C5. On a 2xx response whose body is not an array the code is to fail with the shape
  error, whose message tells what was received. On the 2xx body \<open>{"toString": 1}\<close> it
  does not: inside its own branch for a body that is not an array, the template literal
  that builds the message cannot convert the object to a string, and the call fails with
  that TypeError, whose message says nothing of what was received.
\<close>

theorem C5_toString_failing_input:
  "ok (json_response 200 (Obj [(''toString'', Num 1)])) \<and>
   \<not> is_array (Obj [(''toString'', Num 1)] :: nat jsval) \<and>
   fst (load (mock_platform (json_response 200 (Obj [(''toString'', Num 1)]))) example_loader) =
     Inl (JsError TypeError ''Cannot convert object to primitive value'' None)"
  by (simp add: eval_load is_array_def)

section \<open>Claims on retrieval and orchestration\<close>







lemma download_events:
  "snd (download this) =
     (case s3Config this of Inl e \<Rightarrow> [] | Inr c \<Rightarrow> [GetObject (bucket this) (key this)])"
  by (simp add: download_def split: sum.split)


lemma download_failure_iff:
  "fst (download this) = Inl e \<longleftrightarrow>
     s3Config this = Inl e \<or>
     (\<exists>c. s3Config this = Inr c \<and>
        (send c (bucket this) (key this) = Inl e \<or>
         (\<exists>out. send c (bucket this) (key this) = Inr out \<and>
            (Body out = Some (Inl e) \<or>
             Body out = None \<and>
             e = JsError TypeError
                   ''Cannot read properties of undefined (reading 'transformToByteArray')''
                   None))))"
  by (auto simp: download_def split: sum.splits option.splits)

lemma S3Loader_load_retrieval_failure:
  assumes "fst (download this) = Inl e"
  shows "S3Loader_load this =
           (Inl (JsError Error
                   (''Failed to download file '' @ key this @ '' from S3 bucket '' @ bucket this
                      @ '': '' @ message e) None),
            snd (download this))"
  using assms by (cases "download this") (simp add: S3Loader_load_def)

lemma S3Loader_load_partition_failure:
  assumes "fst (download this) = Inr d"
      and "fst (UnstructuredLoader this (key this) d (partition_options this)) = Inl e"
  shows "fst (S3Loader_load this) =
           Inl (JsError Error
                  (''Failed to load file '' @ key this @ '' using unstructured loader.'') None)"
proof -
  obtain evs where 1: "download this = (Inr d, evs)"
    using assms(1) by (cases "download this") simp
  obtain reqs where 2: "UnstructuredLoader this (key this) d (partition_options this) = (Inl e, reqs)"
    using assms(2) by (cases "UnstructuredLoader this (key this) d (partition_options this)") simp
  show ?thesis using 1 2 by (simp add: S3Loader_load_def Let_def)
qed


text \<open>
  C6. For every invocation of load in which the store fetch fails with a cause \<open>e\<close>
  (building the client raises \<open>e\<close>, the get-object request rejects with \<open>e\<close>, reading the
  body rejects with \<open>e\<close>, or the output has no body, which raises a TypeError \<open>e\<close>), load
  fails with the error whose message is
  \<open>Failed to download file <key> from S3 bucket <bucket>: <message of e>\<close>, and no
  partitioning request is issued in that invocation.
\<close>

theorem C6_retrieval_error:
  assumes "s3Config this = Inl e \<or>
           (\<exists>c. s3Config this = Inr c \<and>
              (send c (bucket this) (key this) = Inl e \<or>
               (\<exists>out. send c (bucket this) (key this) = Inr out \<and>
                  (Body out = Some (Inl e) \<or>
                   Body out = None \<and>
                   e = JsError TypeError
                         ''Cannot read properties of undefined (reading 'transformToByteArray')''
                         None))))"
  shows "fst (S3Loader_load this) =
           Inl (JsError Error
                  (''Failed to download file '' @ key this @ '' from S3 bucket '' @ bucket this
                     @ '': '' @ message e) None) \<and>
         sublist (key this)
           (''Failed to download file '' @ key this @ '' from S3 bucket '' @ bucket this
                     @ '': '' @ message e) \<and>
         sublist (bucket this)
           (''Failed to download file '' @ key this @ '' from S3 bucket '' @ bucket this
                     @ '': '' @ message e) \<and>
         suffix (message e)
           (''Failed to download file '' @ key this @ '' from S3 bucket '' @ bucket this
                     @ '': '' @ message e) \<and>
         (\<forall>req. PartitionRequest req \<notin> set (snd (S3Loader_load this)))"
proof -
  have d: "fst (download this) = Inl e"
    using assms by (simp only: download_failure_iff)
  have 1: "S3Loader_load this =
           (Inl (JsError Error
                   (''Failed to download file '' @ key this @ '' from S3 bucket '' @ bucket this
                      @ '': '' @ message e) None),
            snd (download this))"
    using d by (rule S3Loader_load_retrieval_failure)
  have 2: "sublist (key this)
           (''Failed to download file '' @ key this @ ('' from S3 bucket '' @ bucket this
                     @ '': '' @ message e))"
    by (rule sublist_appendI)
  have 3: "sublist (bucket this)
           ((''Failed to download file '' @ key this @ '' from S3 bucket '') @ bucket this
                     @ ('': '' @ message e))"
    by (rule sublist_appendI)
  have 4: "suffix (message e)
           ((''Failed to download file '' @ key this @ '' from S3 bucket '' @ bucket this
                     @ '': '') @ message e)"
    by (rule suffixI) simp
  have 5: "\<forall>req. PartitionRequest req \<notin> set (snd (download this))"
    by (simp add: download_events split: sum.split)
  show ?thesis using 1 2 3 4 5 by simp
qed

text \<open>
  Four stores: one answers that the key does not exist, one aborts while the body is read,
  one gives an output without a body, and for one the client cannot be built (then no
  get-object request is made either).
\<close>

theorem C6_retrieval_error_witness:
  "S3Loader_load (example_s3 failing_store (mock_platform (json_response 200 (Arr hello_elements)))) =
     (Inl (JsError Error
       ''Failed to download file reports/2023/q1.pdf from S3 bucket my-bucket: The specified key does not exist.''
       None),
      [GetObject ''my-bucket'' ''reports/2023/q1.pdf'']) \<and>
   S3Loader_load (example_s3 broken_body_store
                    (mock_platform (json_response 200 (Arr hello_elements)))) =
     (Inl (JsError Error
       ''Failed to download file reports/2023/q1.pdf from S3 bucket my-bucket: aborted'' None),
      [GetObject ''my-bucket'' ''reports/2023/q1.pdf'']) \<and>
   S3Loader_load (example_s3 empty_body_store
                    (mock_platform (json_response 200 (Arr hello_elements)))) =
     (Inl (JsError Error
       ''Failed to download file reports/2023/q1.pdf from S3 bucket my-bucket: Cannot read properties of undefined (reading 'transformToByteArray')''
       None),
      [GetObject ''my-bucket'' ''reports/2023/q1.pdf'']) \<and>
   S3Loader_load (example_s3 no_client_store
                    (mock_platform (json_response 200 (Arr hello_elements)))) =
     (Inl (JsError Error
       ''Failed to download file reports/2023/q1.pdf from S3 bucket my-bucket: Region is missing''
       None),
      [])"
proof -
  let ?env = "mock_platform (json_response 200 (Arr hello_elements))"
  let ?A = "example_s3 failing_store ?env"
  let ?B = "example_s3 broken_body_store ?env"
  let ?C = "example_s3 empty_body_store ?env"
  let ?D = "example_s3 no_client_store ?env"
  let ?ea = "JsError (OtherClass ''NoSuchKey'') ''The specified key does not exist.'' None"
  let ?eb = "JsError Error ''aborted'' None"
  let ?ec = "JsError TypeError
               ''Cannot read properties of undefined (reading 'transformToByteArray')'' None"
  let ?ed = "JsError Error ''Region is missing'' None"
  have ha: "\<exists>c. s3Config ?A = Inr c \<and> send c (bucket ?A) (key ?A) = Inl ?ea"
    by (simp add: example_s3_def failing_store_def answer_def)
  have hb: "\<exists>c. s3Config ?B = Inr c \<and>
              (\<exists>out. send c (bucket ?B) (key ?B) = Inr out \<and> Body out = Some (Inl ?eb))"
    by (simp add: example_s3_def broken_body_store_def answer_def)
  have hc: "\<exists>c. s3Config ?C = Inr c \<and>
              (\<exists>out. send c (bucket ?C) (key ?C) = Inr out \<and> Body out = None)"
    by (simp add: example_s3_def empty_body_store_def answer_def)
  have hd: "s3Config ?D = Inl ?ed"
    by (simp add: example_s3_def no_client_store_def)
  have ka: "key ?A = ''reports/2023/q1.pdf''" "bucket ?A = ''my-bucket''"
    and kb: "key ?B = ''reports/2023/q1.pdf''" "bucket ?B = ''my-bucket''"
    and kc: "key ?C = ''reports/2023/q1.pdf''" "bucket ?C = ''my-bucket''"
    and kd: "key ?D = ''reports/2023/q1.pdf''" "bucket ?D = ''my-bucket''"
    by (simp_all add: example_s3_def)
  have sa: "snd (S3Loader_load ?A) = [GetObject ''my-bucket'' ''reports/2023/q1.pdf'']"
    and sb: "snd (S3Loader_load ?B) = [GetObject ''my-bucket'' ''reports/2023/q1.pdf'']"
    and sc: "snd (S3Loader_load ?C) = [GetObject ''my-bucket'' ''reports/2023/q1.pdf'']"
    and sd: "snd (S3Loader_load ?D) = []"
    by (simp_all add: eval_s3)
  have a: "fst (S3Loader_load ?A) =
     Inl (JsError Error
       ''Failed to download file reports/2023/q1.pdf from S3 bucket my-bucket: The specified key does not exist.''
       None)"
    using C6_retrieval_error [of ?A ?ea] ha ka by auto
  have b: "fst (S3Loader_load ?B) =
     Inl (JsError Error
       ''Failed to download file reports/2023/q1.pdf from S3 bucket my-bucket: aborted'' None)"
    using C6_retrieval_error [of ?B ?eb] hb kb by auto
  have c: "fst (S3Loader_load ?C) =
     Inl (JsError Error
       ''Failed to download file reports/2023/q1.pdf from S3 bucket my-bucket: Cannot read properties of undefined (reading 'transformToByteArray')''
       None)"
    using C6_retrieval_error [of ?C ?ec] hc kc by auto
  have d: "fst (S3Loader_load ?D) =
     Inl (JsError Error
       ''Failed to download file reports/2023/q1.pdf from S3 bucket my-bucket: Region is missing''
       None)"
    using C6_retrieval_error [of ?D ?ed] hd kd by auto
  show ?thesis
    using a b c d sa sb sc sd by (simp add: prod_eq_iff)
qed

text \<open>
  C3 (as amended). For every invocation of load in which retrieval succeeds but the
  partitioning stage fails, load fails with a plain \<open>Error\<close> whose message is
  \<open>Failed to load file <key> using unstructured loader.\<close>; the error of a retrieval failure
  is of the same class, and the two are told apart by their messages, which always differ.
\<close>

theorem C3_stage_error:
  fixes this :: "'n S3Loader"
  assumes "fst (download this) = Inr objectData"
      and "fst (UnstructuredLoader this (key this) objectData (partition_options this)) = Inl e"
  shows "\<exists>err. fst (S3Loader_load this) = Inl err \<and>
           err_class err = Error \<and>
           message err = ''Failed to load file '' @ key this @ '' using unstructured loader.'' \<and>
           (\<forall>(that :: 'n S3Loader) e'. fst (download that) = Inl e' \<longrightarrow>
              (\<exists>err'. fst (S3Loader_load that) = Inl err' \<and>
                      err_class err' = err_class err \<and> message err' \<noteq> message err))"
proof -
  let ?err = "JsError Error (''Failed to load file '' @ key this @ '' using unstructured loader.'') None"
  have 1: "fst (S3Loader_load this) = Inl ?err"
    using assms by (rule S3Loader_load_partition_failure)
  have 2: "\<exists>err'. fst (S3Loader_load that) = Inl err' \<and>
                      err_class err' = err_class ?err \<and> message err' \<noteq> message ?err"
    if "fst (download that) = Inl e'" for that :: "'n S3Loader" and e'
    using S3Loader_load_retrieval_failure [OF that] by simp
  show ?thesis using 1 2 by auto
qed

text \<open>The service answers 500 to the bytes of one store; another store has no such key.\<close>

theorem C3_stage_error_witness:
  "fst (download (example_s3 (working_store [1, 2, 3])
          (mock_platform (text_response 500 ''bad file'')))) = Inr [1, 2, 3] \<and>
   fst (download (example_s3 failing_store (mock_platform (text_response 500 ''bad file'')))) =
     Inl (JsError (OtherClass ''NoSuchKey'') ''The specified key does not exist.'' None) \<and>
   (\<exists>err. fst (S3Loader_load (example_s3 (working_store [1, 2, 3])
                  (mock_platform (text_response 500 ''bad file'')))) = Inl err \<and>
          err_class err = Error \<and>
          message err = ''Failed to load file reports/2023/q1.pdf using unstructured loader.'' \<and>
          (\<exists>err'. fst (S3Loader_load (example_s3 failing_store
                          (mock_platform (text_response 500 ''bad file'')))) = Inl err' \<and>
                  err_class err' = err_class err \<and> message err' \<noteq> message err))"
proof -
  let ?env = "mock_platform (text_response 500 ''bad file'')"
  let ?B = "example_s3 (working_store [1, 2, 3]) ?env"
  let ?A = "example_s3 failing_store ?env"
  have d: "fst (download ?B) = Inr [1, 2, 3]"
    by (simp add: eval_s3)
  have p: "fst (UnstructuredLoader ?B (key ?B) [1, 2, 3] (partition_options ?B)) =
             Inl (JsError Error
               ''Failed to partition file reports/2023/q1.pdf with error 500 and message bad file''
               None)"
    by (simp add: eval_s3 eval_load text_response_def show_nat.simps digit_char_def)
  have a: "fst (download ?A) =
     Inl (JsError (OtherClass ''NoSuchKey'') ''The specified key does not exist.'' None)"
    by (simp add: eval_s3)
  have k: "key ?B = ''reports/2023/q1.pdf''" by (simp add: example_s3_def)
  from C3_stage_error [OF d p] obtain err where
    e: "fst (S3Loader_load ?B) = Inl err" "err_class err = Error"
       "message err = ''Failed to load file '' @ key ?B @ '' using unstructured loader.''"
       "\<forall>(that :: nat S3Loader) e'. fst (download that) = Inl e' \<longrightarrow>
              (\<exists>err'. fst (S3Loader_load that) = Inl err' \<and>
                      err_class err' = err_class err \<and> message err' \<noteq> message err)"
    by blast
  from e(4) a have "\<exists>err'. fst (S3Loader_load ?A) = Inl err' \<and>
                      err_class err' = err_class err \<and> message err' \<noteq> message err"
    by blast
  with e(1-3) d a k show ?thesis by auto
qed

text \<open>
  C3 as stated fails: the error of a retrieval failure and the error of a partitioning
  failure are both built by \<open>new Error\<close>, so their kinds coincide.
\<close>

theorem C3_same_kind_counterexample:
  "fst (S3Loader_load (example_s3 failing_store (mock_platform (text_response 500 ''bad file'')))) =
     Inl (JsError Error
       ''Failed to download file reports/2023/q1.pdf from S3 bucket my-bucket: The specified key does not exist.''
       None) \<and>
   fst (S3Loader_load (example_s3 (working_store [1, 2, 3])
                         (mock_platform (text_response 500 ''bad file'')))) =
     Inl (JsError Error ''Failed to load file reports/2023/q1.pdf using unstructured loader.'' None) \<and>
   failure_kind (fst (S3Loader_load (example_s3 failing_store
                         (mock_platform (text_response 500 ''bad file''))))) =
   failure_kind (fst (S3Loader_load (example_s3 (working_store [1, 2, 3])
                         (mock_platform (text_response 500 ''bad file'')))))"
  by (simp add: eval_s3 eval_load text_response_def failure_kind_def)



text \<open>
  C10. For every failure of the partitioning stage of load, the error raised is
  \<open>Error\<close> with the message \<open>Failed to load file <key> using unstructured loader.\<close> and no
  cause: it is the same value whatever the underlying failure, the bytes and the
  endpoint were, so nothing of the partitioning detail can be recovered from it.
\<close>

theorem C10_cause_discarded:
  fixes this :: "'n S3Loader"
  assumes "fst (download this) = Inr objectData"
      and "fst (UnstructuredLoader this (key this) objectData (partition_options this)) = Inl e"
  shows "fst (S3Loader_load this) =
           Inl (JsError Error
                  (''Failed to load file '' @ key this @ '' using unstructured loader.'') None) \<and>
         (\<forall>(that :: 'n S3Loader) d' e'.
            key that = key this \<and> fst (download that) = Inr d' \<and>
            fst (UnstructuredLoader that (key that) d' (partition_options that)) = Inl e' \<longrightarrow>
            fst (S3Loader_load that) = fst (S3Loader_load this))"
proof -
  have 1: "fst (S3Loader_load this) =
           Inl (JsError Error
                  (''Failed to load file '' @ key this @ '' using unstructured loader.'') None)"
    using assms by (rule S3Loader_load_partition_failure)
  have 2: "fst (S3Loader_load that) = fst (S3Loader_load this)"
    if "key that = key this" and "fst (download that) = Inr d'"
      and "fst (UnstructuredLoader that (key that) d' (partition_options that)) = Inl e'"
    for that :: "'n S3Loader" and d' e'
    using S3Loader_load_partition_failure [OF that(2,3)] 1 that(1) by simp
  show ?thesis using 1 2 by blast
qed

text \<open>
  A 500 response and a 200 response with a body that is not an array give the same error.
\<close>

theorem C10_cause_discarded_witness:
  "fst (S3Loader_load (example_s3 (working_store [1, 2, 3])
                         (mock_platform (text_response 500 ''bad file'')))) =
     Inl (JsError Error ''Failed to load file reports/2023/q1.pdf using unstructured loader.'' None) \<and>
   fst (S3Loader_load (example_s3 (working_store [4])
                         (mock_platform (json_response 200 (Obj [(''foo'', Str ''bar'')]))))) =
   fst (S3Loader_load (example_s3 (working_store [1, 2, 3])
                         (mock_platform (text_response 500 ''bad file''))))"
proof -
  let ?B = "example_s3 (working_store [1, 2, 3]) (mock_platform (text_response 500 ''bad file''))"
  let ?C = "example_s3 (working_store [4]) (mock_platform (json_response 200 (Obj [(''foo'', Str ''bar'')])))"
  have d: "fst (download ?B) = Inr [1, 2, 3]"
    by (simp add: eval_s3)
  have p: "fst (UnstructuredLoader ?B (key ?B) [1, 2, 3] (partition_options ?B)) =
             Inl (JsError Error
               ''Failed to partition file reports/2023/q1.pdf with error 500 and message bad file''
               None)"
    by (simp add: eval_s3 eval_load text_response_def show_nat.simps digit_char_def)
  have k: "key ?B = ''reports/2023/q1.pdf''" "key ?C = key ?B" by (simp_all add: example_s3_def)
  have d': "fst (download ?C) = Inr [4]"
    by (simp add: eval_s3)
  have p': "fst (UnstructuredLoader ?C (key ?C) [4] (partition_options ?C)) =
             Inl (JsError Error
               ''Expected partitioning request to return an array, but got [object Object]'' None)"
    by (simp add: eval_s3 eval_load)
  show ?thesis
    using C10_cause_discarded [OF d p] k d' p' by simp
qed

end
